theory Spec2Isabelle
  imports Complex_Main
begin

text \<open>
  The layer editor of \<^verbatim>\<open>RectLayer.tsx\<close> in its last listing: the reducer with the cases
  \<^verbatim>\<open>'layer/moveStarted'\<close>, \<^verbatim>\<open>'layer/moved'\<close>, \<^verbatim>\<open>'layer/moveEnded'\<close>,
  \<^verbatim>\<open>'layer/resized'\<close> and \<^verbatim>\<open>'layer/rotated'\<close>, the handler of the rotate handle, and
  the touch adapter with the handlers of \<^verbatim>\<open>Canvas\<close>.
\<close>

section \<open>Values\<close>

text \<open>
  \<^verbatim>\<open>type Pixel = number; type Radian = number;\<close>
  A JavaScript number is modelled as a real or \<open>NaN\<close>. Rounding, the infinities and the
  sign of zero are left out: arithmetic on finite numbers is exact.
\<close>

datatype number = Finite real | NaN

text \<open>
  A value read from a property or an identifier: \<open>Undefined\<close> is what reading a property
  that the object does not have yields.
\<close>

datatype jsvalue = Undefined | Number number

fun ToNumber :: "jsvalue \<Rightarrow> number" where
  "ToNumber Undefined = NaN"
| "ToNumber (Number n) = n"

fun add_number :: "number \<Rightarrow> number \<Rightarrow> number" where
  "add_number (Finite a) (Finite b) = Finite (a + b)"
| "add_number _ _ = NaN"

fun sub_number :: "number \<Rightarrow> number \<Rightarrow> number" where
  "sub_number (Finite a) (Finite b) = Finite (a - b)"
| "sub_number _ _ = NaN"

text \<open>The operator \<^verbatim>\<open>+\<close> on operands that are numbers or undefined.\<close>

definition js_plus :: "jsvalue \<Rightarrow> jsvalue \<Rightarrow> number" where
  "js_plus a b = add_number (ToNumber a) (ToNumber b)"

datatype error = ReferenceError string | TypeError string

section \<open>Data model\<close>

text \<open>
  \<^verbatim>\<open>type Transform = Pick<Layer, "width" | "height" | "positionX" | "positionY" | "rotate">;\<close>
\<close>

record Transform =
  width :: number
  height :: number
  positionX :: number
  positionY :: number
  rotate :: number

text \<open>
  \<^verbatim>\<open>interface Layer { id; width; height; positionX; positionY; rotate }\<close>
  A layer is a Transform with an \<^verbatim>\<open>id\<close> (here \<open>layer_id\<close>, an integer). The
  reducer also assigns to the properties \<^verbatim>\<open>x\<close> and \<^verbatim>\<open>y\<close> of a layer, which the
  interface does not declare; an assignment creates them. They are the fields \<open>x_prop\<close>
  and \<open>y_prop\<close>, \<open>Undefined\<close> while absent.
\<close>

record Layer = Transform +
  layer_id :: int
  x_prop :: jsvalue
  y_prop :: jsvalue

text \<open>
  \<^verbatim>\<open>pick(layer, ['width', 'height', 'positionX', 'positionY', 'rotate'])\<close>
\<close>

definition pick :: "Layer \<Rightarrow> Transform" where
  "pick layer = \<lparr>width = width layer, height = height layer,
     positionX = positionX layer, positionY = positionY layer, rotate = rotate layer\<rparr>"

text \<open>
  The properties \<^verbatim>\<open>x\<close> and \<^verbatim>\<open>y\<close> of a Transform, as
  \<^verbatim>\<open>const { x, y } = transform\<close> reads them: \<open>pick\<close> copies five properties and
  neither of these, so both reads yield undefined.
\<close>

definition Transform_x :: "Transform \<Rightarrow> jsvalue" where
  "Transform_x transform = Undefined"

definition Transform_y :: "Transform \<Rightarrow> jsvalue" where
  "Transform_y transform = Undefined"

text \<open>
  \<^verbatim>\<open>interface State { layers: Layer[]; initialTransforms: Record<Layer["id"], Transform> }\<close>
\<close>

record State =
  layers :: "Layer list"
  initialTransforms :: "int \<rightharpoonup> Transform"

definition initialState :: State where
  "initialState = \<lparr>layers =
      [\<lparr>width = Finite 200, height = Finite 100, positionX = Finite 0, positionY = Finite 0,
        rotate = Finite 0, layer_id = 1, x_prop = Undefined, y_prop = Undefined\<rparr>],
     initialTransforms = Map.empty\<rparr>"

text \<open>
  The actions, by their \<^verbatim>\<open>type\<close> and \<^verbatim>\<open>payload\<close>:
  \<^verbatim>\<open>'layer/moveStarted' { id }\<close>, \<^verbatim>\<open>'layer/moved' { dx, dy }\<close>,
  \<^verbatim>\<open>'layer/moveEnded' {}\<close>, \<^verbatim>\<open>'layer/resized' { dx, dy }\<close>,
  \<^verbatim>\<open>'layer/rotated' { id, nextTheta }\<close>. \<open>Unknown t\<close> is an action whose type \<open>t\<close> is
  none of the five case labels. The id of \<open>MoveStarted\<close> is
  \<^verbatim>\<open>Number(e.currentTarget.dataset.layerId)\<close>, which may be NaN.
\<close>

datatype action =
    MoveStarted number
  | Moved number number
  | MoveEnded
  | Resized number number
  | Rotated int number
  | Unknown string

section \<open>The reducer\<close>

text \<open>
  \<^verbatim>\<open>array.forEach(callback)\<close> where the callback may assign to properties of the
  element it is given and may throw: the elements as the callbacks leave them, or the
  first exception.
\<close>

fun forEach :: "('a \<Rightarrow> error + 'a) \<Rightarrow> 'a list \<Rightarrow> error + 'a list" where
  "forEach callback [] = Inr []"
| "forEach callback (v # vs) =
     (case callback v of
        Inl e \<Rightarrow> Inl e
      | Inr v' \<Rightarrow> (case forEach callback vs of Inl e \<Rightarrow> Inl e | Inr vs' \<Rightarrow> Inr (v' # vs')))"

text \<open>
  An identifier that no enclosing scope of the reducer binds: evaluating it throws.
\<close>

definition unbound_identifier :: "string \<Rightarrow> error + jsvalue" where
  "unbound_identifier name = Inl (ReferenceError name)"

text \<open>
  Case \<^verbatim>\<open>'layer/moveStarted'\<close>:
  \<^verbatim>\<open>state.layers.forEach(layer => { state.initialTransforms[layer.id] = pick(layer, [...]) })\<close>
\<close>

definition moveStarted_forEach :: "(int \<rightharpoonup> Transform) \<Rightarrow> Layer list \<Rightarrow> (int \<rightharpoonup> Transform)" where
  "moveStarted_forEach transforms ls =
     foldl (\<lambda>m layer. m(layer_id layer \<mapsto> pick layer)) transforms ls"

text \<open>
  Case \<^verbatim>\<open>'layer/moved'\<close>, the callback:
  \<^verbatim>\<open>
  const transform = state.initialTransforms[layer.id];
  if(!transform) { return; }
  const { x, y } = transform;
  layer.x = x + dx;
  layer.y = y + dy;
  \<close>
\<close>

definition moved_callback ::
  "(int \<rightharpoonup> Transform) \<Rightarrow> number \<Rightarrow> number \<Rightarrow> Layer \<Rightarrow> error + Layer" where
  "moved_callback transforms dx dy layer =
     (case transforms (layer_id layer) of
        None \<Rightarrow> Inr layer
      | Some transform \<Rightarrow>
          (let x = Transform_x transform; y = Transform_y transform
           in Inr (layer\<lparr>x_prop := Number (js_plus x (Number dx)),
                        y_prop := Number (js_plus y (Number dy))\<rparr>)))"

text \<open>
  Case \<^verbatim>\<open>'layer/resized'\<close>, the callback:
  \<^verbatim>\<open>
  const transform = state.initialTransforms[layer.id];
  if(!transform) { return; }
  const { width, height } = transform;
  layer.width = x + dx;
  layer.height = y + dy;
  \<close>
  The names \<^verbatim>\<open>width\<close> and \<^verbatim>\<open>height\<close> are bound and not used; \<^verbatim>\<open>x\<close> and
  \<^verbatim>\<open>y\<close> are used and not bound.
\<close>

definition resized_callback ::
  "(int \<rightharpoonup> Transform) \<Rightarrow> number \<Rightarrow> number \<Rightarrow> Layer \<Rightarrow> error + Layer" where
  "resized_callback transforms dx dy layer =
     (case transforms (layer_id layer) of
        None \<Rightarrow> Inr layer
      | Some transform \<Rightarrow>
          (case unbound_identifier ''x'' of
             Inl e \<Rightarrow> Inl e
           | Inr x \<Rightarrow>
               (case unbound_identifier ''y'' of
                  Inl e \<Rightarrow> Inl e
                | Inr y \<Rightarrow> Inr (layer\<lparr>width := js_plus x (Number dx),
                                      height := js_plus y (Number dy)\<rparr>))))"

text \<open>
  \<^verbatim>\<open>state.layers.find(layer => layer.id === id)\<close>: the first element with that id,
  given by its position in the array, or nothing.
\<close>

fun find_layer :: "int \<Rightarrow> Layer list \<Rightarrow> nat option" where
  "find_layer i [] = None"
| "find_layer i (layer # ls) =
     (if layer_id layer = i then Some 0
      else (case find_layer i ls of None \<Rightarrow> None | Some k \<Rightarrow> Some (Suc k)))"

text \<open>
  The function given to \<^verbatim>\<open>produce\<close>: the \<^verbatim>\<open>switch (action.type)\<close> on the draft.
  The \<^verbatim>\<open>default\<close> branch calls \<^verbatim>\<open>unreduceable(action)\<close>, which evaluates
  \<^verbatim>\<open>void unknownAction\<close> and changes nothing.
\<close>

fun recipe :: "action \<Rightarrow> State \<Rightarrow> error + State" where
  "recipe (MoveStarted i) state =
     Inr (state\<lparr>initialTransforms := moveStarted_forEach (initialTransforms state) (layers state)\<rparr>)"
| "recipe (Moved dx dy) state =
     (case forEach (moved_callback (initialTransforms state) dx dy) (layers state) of
        Inl e \<Rightarrow> Inl e
      | Inr ls \<Rightarrow> Inr (state\<lparr>layers := ls\<rparr>))"
| "recipe MoveEnded state = Inr (state\<lparr>initialTransforms := Map.empty\<rparr>)"
| "recipe (Resized dx dy) state =
     (case forEach (resized_callback (initialTransforms state) dx dy) (layers state) of
        Inl e \<Rightarrow> Inl e
      | Inr ls \<Rightarrow> Inr (state\<lparr>layers := ls\<rparr>))"
| "recipe (Rotated i nextTheta) state =
     (case find_layer i (layers state) of
        None \<Rightarrow> Inr state
      | Some k \<Rightarrow> Inr (state\<lparr>layers := (layers state)[k := (layers state ! k)\<lparr>rotate := nextTheta\<rparr>]\<rparr>))"
| "recipe (Unknown t) state = Inr state"

text \<open>
  \<^verbatim>\<open>produce(base, recipe)\<close> of immer: the recipe runs on a draft of \<open>base\<close>, and the
  finished draft is the result; \<open>base\<close> itself is not written to. An exception that the
  recipe throws passes through \<^verbatim>\<open>produce\<close> to its caller.
\<close>

definition produce :: "'s \<Rightarrow> ('s \<Rightarrow> error + 's) \<Rightarrow> error + 's" where
  "produce base recipe_fn = recipe_fn base"

text \<open>
  \<^verbatim>\<open>
  const reducer = (currentState = initialState, action: KnownLayerActions) => {
    produce(currentState, state => { switch (action.type) { ... } });
  }
  \<close>
  The argument \<open>None\<close> is \<^verbatim>\<open>undefined\<close>, for which the default \<^verbatim>\<open>initialState\<close>
  stands in. The body is a block that calls \<^verbatim>\<open>produce\<close> and has no
  \<^verbatim>\<open>return\<close> statement: the call's value is dropped and the result is
  \<^verbatim>\<open>undefined\<close>, here \<open>None\<close>.
\<close>

definition reducer :: "State option \<Rightarrow> action \<Rightarrow> error + State option" where
  "reducer currentState action =
     (let base = (case currentState of None \<Rightarrow> initialState | Some s \<Rightarrow> s)
      in case produce base (recipe action) of
           Inl e \<Rightarrow> Inl e
         | Inr state \<Rightarrow> Inr None)"

text \<open>
  The states that \<^verbatim>\<open>produce\<close> computes for a sequence of actions, each action applied
  to the state the one before it produced; an exception ends the sequence.
\<close>

fun dispatch_all :: "State \<Rightarrow> action list \<Rightarrow> error + State" where
  "dispatch_all s [] = Inr s"
| "dispatch_all s (a # as) =
     (case produce s (recipe a) of Inl e \<Rightarrow> Inl e | Inr s' \<Rightarrow> dispatch_all s' as)"

section \<open>Invariant and reachable states\<close>

text \<open>
  Every id that has a snapshot is the id of a layer of the collection.
\<close>

definition snapshot_ids_present :: "State \<Rightarrow> bool" where
  "snapshot_ids_present s \<longleftrightarrow> dom (initialTransforms s) \<subseteq> layer_id ` set (layers s)"

text \<open>
  The states reached from \<open>initialState\<close> by actions whose \<^verbatim>\<open>produce\<close> call returns.
\<close>

inductive reachable :: "State \<Rightarrow> bool" where
  initial: "reachable initialState"
| step: "reachable s \<Longrightarrow> produce s (recipe a) = Inr s' \<Longrightarrow> reachable s'"

section \<open>The rotate handle\<close>

text \<open>
  \<^verbatim>\<open>Math.atan2(y, x)\<close> on finite numbers: the angle of the point \<open>(x, y)\<close> seen from
  the origin, zero at the origin itself.
\<close>

definition atan2 :: "real \<Rightarrow> real \<Rightarrow> real" where
  "atan2 y x =
     (if 0 < x then arctan (y / x)
      else if x < 0 then (if 0 \<le> y then arctan (y / x) + pi else arctan (y / x) - pi)
      else if 0 < y then pi / 2
      else if y < 0 then - (pi / 2)
      else 0)"

fun Math_atan2 :: "number \<Rightarrow> number \<Rightarrow> number" where
  "Math_atan2 (Finite y) (Finite x) = Finite (atan2 y x)"
| "Math_atan2 _ _ = NaN"

text \<open>
  \<^verbatim>\<open>const action = (type, payload) => ({ type, payload })\<close> and the action creators
  \<^verbatim>\<open>moveStarted = (id) => action('layer/moveStarted', { id })\<close>,
  \<^verbatim>\<open>moved = (dx, dy) => action('layer/moved', { dx, dy })\<close>.
\<close>

definition LayerActions_moveStarted :: "number \<Rightarrow> action" where
  "LayerActions_moveStarted i = MoveStarted i"

definition LayerActions_moved :: "number \<Rightarrow> number \<Rightarrow> action" where
  "LayerActions_moved dx dy = Moved dx dy"

text \<open>
  \<^verbatim>\<open>
  const LayerActions {
    moveStarted = (id: Layer['id']) => action('layer/moveStarted', { id }),
    moved = (dx: Pixel, dy: Pixel) => action('layer/moved', { dx, dy }),
    moveEnded = () => action('layer/moveEnded', {}),
    resized = (dx: Pixel, dy: Pixel) => action('layer/resized', { dx, dy })
  }
  \<close>
  The object by its property names: these four creators and no other, so that
  \<^verbatim>\<open>LayerActions.rotate\<close> and \<^verbatim>\<open>LayerActions.dragEnded\<close> read undefined. A creator
  takes the list of its arguments; a parameter with no argument is undefined, which the
  arithmetic of the reducer reads as NaN.
\<close>

definition argument :: "nat \<Rightarrow> number list \<Rightarrow> number" where
  "argument k args = (if k < length args then args ! k else NaN)"

definition LayerActions :: "string \<rightharpoonup> (number list \<Rightarrow> action)" where
  "LayerActions =
     [''moveStarted'' \<mapsto> (\<lambda>args. LayerActions_moveStarted (argument 0 args)),
      ''moved'' \<mapsto> (\<lambda>args. LayerActions_moved (argument 0 args) (argument 1 args)),
      ''moveEnded'' \<mapsto> (\<lambda>args. MoveEnded),
      ''resized'' \<mapsto> (\<lambda>args. Resized (argument 0 args) (argument 1 args))]"

text \<open>The operator \<^verbatim>\<open>-\<close> on operands that are numbers or undefined.\<close>

definition js_minus :: "jsvalue \<Rightarrow> jsvalue \<Rightarrow> number" where
  "js_minus a b = sub_number (ToNumber a) (ToNumber b)"

text \<open>
  The handler of the rotate handle:
  \<^verbatim>\<open>
  function RotateHandler({ onMove, onDragStart, onDragEnd }: Props) {
    ...
    const onMove = (_dx: Pixel, _dy: Pixel, x: Pixel, y: Pixel) => {
      const [cx, cy] = props.parentCenter;
      const vx = x - cx;
      const vy = y - cy;
      const nextTheta = Math.atan2(vy, vx);
      dispatch(LayerActions.rotate(layer.id, nextTheta));
    };
  }
  \<close>
  Its free identifiers are \<^verbatim>\<open>props\<close>, \<^verbatim>\<open>layer\<close>, \<^verbatim>\<open>dispatch\<close> and
  \<^verbatim>\<open>LayerActions\<close>. A scope says what the first three are bound to where the handler
  is defined: the value of \<^verbatim>\<open>props.parentCenter\<close>, the value of \<^verbatim>\<open>layer.id\<close>, and
  whether \<^verbatim>\<open>dispatch\<close> is bound; \<open>None\<close> and \<open>False\<close> stand for an identifier that is
  not bound.
\<close>

record Scope =
  scope_props_parentCenter :: "(number \<times> number) option"
  scope_layer_id :: "int option"
  scope_dispatch :: bool

text \<open>
  The scope of the listing: the component takes its parameter apart into
  \<^verbatim>\<open>onMove\<close>, \<^verbatim>\<open>onDragStart\<close> and \<^verbatim>\<open>onDragEnd\<close>, and neither it nor the module
  binds \<^verbatim>\<open>props\<close>, \<^verbatim>\<open>layer\<close> or \<^verbatim>\<open>dispatch\<close>.
\<close>

definition RotateHandler_scope :: Scope where
  "RotateHandler_scope =
     \<lparr>scope_props_parentCenter = None, scope_layer_id = None, scope_dispatch = False\<rparr>"

text \<open>
  The lines from \<^verbatim>\<open>const vx\<close> to \<^verbatim>\<open>const nextTheta\<close>, for a pivot
  \<open>(cx, cy)\<close>. The parameters \<^verbatim>\<open>x\<close> and \<^verbatim>\<open>y\<close> are undefined in a call with two
  arguments, and \<^verbatim>\<open>this.handlers.onMove(clientX - x, clientY - y)\<close> of the touch adapter
  is such a call.
\<close>

definition nextTheta_of :: "number \<times> number \<Rightarrow> jsvalue \<Rightarrow> jsvalue \<Rightarrow> number" where
  "nextTheta_of parentCenter x y =
     (case parentCenter of (cx, cy) \<Rightarrow>
        (let vx = js_minus x (Number cx);
             vy = js_minus y (Number cy)
         in Math_atan2 vy vx))"

text \<open>
  The body of the handler in a scope. The statements run in order: \<^verbatim>\<open>props\<close> is read
  first; in the call \<^verbatim>\<open>dispatch(LayerActions.rotate(layer.id, nextTheta))\<close> the
  identifier \<^verbatim>\<open>dispatch\<close> is resolved, then the argument is evaluated, which reads
  \<^verbatim>\<open>LayerActions.rotate\<close>, evaluates \<^verbatim>\<open>layer.id\<close> and calls what it read. The
  result \<open>Inr a\<close> is the action \<open>a\<close> handed to \<^verbatim>\<open>dispatch\<close>.
\<close>

definition RotateHandler_onMove_in ::
  "Scope \<Rightarrow> number \<Rightarrow> number \<Rightarrow> jsvalue \<Rightarrow> jsvalue \<Rightarrow> error + action" where
  "RotateHandler_onMove_in scope dx_unused dy_unused x y =
     (case scope_props_parentCenter scope of
        None \<Rightarrow> Inl (ReferenceError ''props'')
      | Some parentCenter \<Rightarrow>
          (let nextTheta = nextTheta_of parentCenter x y
           in if \<not> scope_dispatch scope then Inl (ReferenceError ''dispatch'')
              else
                (case scope_layer_id scope of
                   None \<Rightarrow> Inl (ReferenceError ''layer'')
                 | Some layerId \<Rightarrow>
                     (case LayerActions ''rotate'' of
                        None \<Rightarrow> Inl (TypeError ''LayerActions.rotate'')
                      | Some creator \<Rightarrow>
                          Inr (creator [Finite (real_of_int layerId), nextTheta])))))"

text \<open>The handler as the listing has it.\<close>

definition RotateHandler_onMove ::
  "number \<Rightarrow> number \<Rightarrow> jsvalue \<Rightarrow> jsvalue \<Rightarrow> error + action" where
  "RotateHandler_onMove = RotateHandler_onMove_in RotateHandler_scope"

section \<open>The touch adapter\<close>

text \<open>
  What the handlers read of a touch event: the two targets (\<open>None\<close> is \<^verbatim>\<open>null\<close>) and
  the list \<^verbatim>\<open>changedTouches\<close>. Of an element only \<^verbatim>\<open>dataset.layerId\<close> is read; a
  data attribute that holds a numeral is given by its value, a missing one is
  \<open>Undefined\<close>.
\<close>

record Touch =
  clientX :: number
  clientY :: number

record Element =
  dataset_layerId :: jsvalue

record TouchEvent =
  currentTarget :: "Element option"
  target :: "Element option"
  changedTouches :: "Touch list"

text \<open>
  \<^verbatim>\<open>
  interface Handlers {
    onMove(dx: Pixel, dy: Pixel): void;
    onDragStart(x: Pixel, y: Pixel, e: Event): void;
    onDragEnd(e: Event): void;
  }
  \<close>
  A handler acts on whatever the caller of the adapter keeps as state, the type \<open>'w\<close>,
  and may throw.
\<close>

record 'w Handlers =
  onMove :: "number \<Rightarrow> number \<Rightarrow> 'w \<Rightarrow> error + 'w"
  onDragStart :: "number \<Rightarrow> number \<Rightarrow> TouchEvent \<Rightarrow> 'w \<Rightarrow> error + 'w"
  onDragEnd :: "TouchEvent \<Rightarrow> 'w \<Rightarrow> error + 'w"

text \<open>
  \<^verbatim>\<open>
  private readonly _onTouchStart = (e: TouchEvent) => {
    e.stopPropagation();
    if(!e.currentTarget || !e.target) { return; }
    if(e.changedTouches.length !== 1) { return; }
    const touch = e.changedTouches[0];
    const x = touch.clientX;
    const y = touch.clientY;
    this.initialTouch = { x, y };
    this.handlers.onDragStart(x, y, e);
  }
  \<close>
  The state is the field \<^verbatim>\<open>initialTouch\<close> (\<open>None\<close> is \<^verbatim>\<open>undefined\<close>) together
  with the state of the handlers. \<^verbatim>\<open>stopPropagation\<close> acts on the event's way
  through the document only and is not part of the state.
\<close>

definition onTouchStart ::
  "'w Handlers \<Rightarrow> TouchEvent \<Rightarrow> (number \<times> number) option \<times> 'w
     \<Rightarrow> error + ((number \<times> number) option \<times> 'w)" where
  "onTouchStart handlers e st =
     (case st of (initialTouch, w) \<Rightarrow>
        if currentTarget e = None \<or> target e = None then Inr (initialTouch, w)
        else if length (changedTouches e) \<noteq> 1 then Inr (initialTouch, w)
        else
          (let touch = changedTouches e ! 0;
               x = clientX touch;
               y = clientY touch
           in case onDragStart handlers x y e w of
                Inl err \<Rightarrow> Inl err
              | Inr w' \<Rightarrow> Inr (Some (x, y), w')))"

text \<open>
  \<^verbatim>\<open>const [state, dispatch] = useReducer(reducer, initialState)\<close>: the state that
  \<^verbatim>\<open>Canvas\<close> holds is replaced by what the reducer returns.
\<close>

definition dispatch :: "action \<Rightarrow> State option \<Rightarrow> error + State option" where
  "dispatch a st = reducer st a"

text \<open>
  The handlers of \<^verbatim>\<open>Canvas\<close>:
  \<^verbatim>\<open>
  const onDragStart = (_x: Pixel, _y: Pixel, e: Event) => {
    const layerId = Number(e.currentTarget.dataset.layerId);
    dispatch(LayerActions.moveStarted(layerId));
  };
  const onMove = (dx: number, dy: number) => { dispatch(LayerActions.moved(dx, dy)); };
  const onDragEnd = () => { e.stopPropagation(); dispatch(LayerActions.dragEnded()); };
  \<close>
  \<^verbatim>\<open>onDragEnd\<close> takes no parameter, so its \<^verbatim>\<open>e\<close> is not bound.
\<close>

definition Canvas_onDragStart ::
  "number \<Rightarrow> number \<Rightarrow> TouchEvent \<Rightarrow> State option \<Rightarrow> error + State option" where
  "Canvas_onDragStart x_unused y_unused e st =
     (case currentTarget e of
        None \<Rightarrow> Inl (TypeError ''currentTarget'')
      | Some element \<Rightarrow>
          (let layerId = ToNumber (dataset_layerId element)
           in dispatch (LayerActions_moveStarted layerId) st))"

definition Canvas_onMove :: "number \<Rightarrow> number \<Rightarrow> State option \<Rightarrow> error + State option" where
  "Canvas_onMove dx dy st = dispatch (LayerActions_moved dx dy) st"

definition Canvas_onDragEnd :: "TouchEvent \<Rightarrow> State option \<Rightarrow> error + State option" where
  "Canvas_onDragEnd ev st =
     (case unbound_identifier ''e'' of
        Inl err \<Rightarrow> Inl err
      | Inr e \<Rightarrow> Inl (TypeError ''LayerActions.dragEnded''))"

definition Canvas_handlers :: "State option Handlers" where
  "Canvas_handlers =
     \<lparr>onMove = Canvas_onMove, onDragStart = Canvas_onDragStart, onDragEnd = Canvas_onDragEnd\<rparr>"

section \<open>What the callbacks and cases compute\<close>

lemma forEach_Inr_map:
  "(\<And>v. v \<in> set vs \<Longrightarrow> callback v = Inr (g v)) \<Longrightarrow> forEach callback vs = Inr (map g vs)"
  by (induction vs) auto

lemma moved_callback_result:
  "moved_callback transforms dx dy layer =
     Inr (if transforms (layer_id layer) = None then layer
          else layer\<lparr>x_prop := Number NaN, y_prop := Number NaN\<rparr>)"
  by (simp add: moved_callback_def Transform_x_def Transform_y_def js_plus_def
      split: option.split)

lemma produce_Moved:
  "produce s (recipe (Moved dx dy)) =
     Inr (s\<lparr>layers :=
              map (\<lambda>layer. if initialTransforms s (layer_id layer) = None then layer
                            else layer\<lparr>x_prop := Number NaN, y_prop := Number NaN\<rparr>)
                (layers s)\<rparr>)"
  by (simp add: produce_def forEach_Inr_map [OF moved_callback_result])

lemma resized_callback_result:
  "resized_callback transforms dx dy layer =
     (if transforms (layer_id layer) = None then Inr layer else Inl (ReferenceError ''x''))"
  by (simp add: resized_callback_def unbound_identifier_def split: option.split)

lemma forEach_resized:
  "forEach (resized_callback transforms dx dy) ls =
     (if \<forall>layer \<in> set ls. transforms (layer_id layer) = None then Inr ls
      else Inl (ReferenceError ''x''))"
  by (induction ls) (simp_all add: resized_callback_result)

lemma produce_Resized:
  "produce s (recipe (Resized dx dy)) =
     (if \<forall>layer \<in> set (layers s). initialTransforms s (layer_id layer) = None then Inr s
      else Inl (ReferenceError ''x''))"
  by (simp add: produce_def forEach_resized)

lemma produce_MoveEnded:
  "produce s (recipe MoveEnded) = Inr (s\<lparr>initialTransforms := Map.empty\<rparr>)"
  by (simp add: produce_def)

lemma produce_Unknown: "produce s (recipe (Unknown t)) = Inr s"
  by (simp add: produce_def)

lemma dom_moveStarted_forEach:
  "dom (moveStarted_forEach transforms ls) = dom transforms \<union> layer_id ` set ls"
  unfolding moveStarted_forEach_def
  by (induction ls arbitrary: transforms) auto

lemma find_layer_None:
  "find_layer i ls = None \<longleftrightarrow> (\<forall>layer \<in> set ls. layer_id layer \<noteq> i)"
  by (induction ls) (auto split: option.splits)

lemma find_layer_Some:
  "find_layer i ls = Some k \<Longrightarrow> k < length ls \<and> layer_id (ls ! k) = i"
  by (induction ls arbitrary: k) (auto split: if_splits option.splits)

text \<open>
  Whatever the ids, \<open>rotated\<close> returns, keeps the snapshot map and the number of layers,
  and changes at most the \<open>rotate\<close> field of a layer with the id of the action.
\<close>

lemma rotated_frame:
  "\<exists>s'. produce s (recipe (Rotated i theta)) = Inr s' \<and>
      initialTransforms s' = initialTransforms s \<and>
      length (layers s') = length (layers s) \<and>
      (\<forall>k < length (layers s).
         layers s' ! k = layers s ! k \<or>
         layer_id (layers s ! k) = i \<and> layers s' ! k = (layers s ! k)\<lparr>rotate := theta\<rparr>)"
proof (cases "find_layer i (layers s)")
  case None
  then show ?thesis by (simp add: produce_def)
next
  case (Some k0)
  from find_layer_Some [OF Some]
  have k0: "k0 < length (layers s)" and i: "layer_id (layers s ! k0) = i" by simp_all
  let ?ls' = "(layers s)[k0 := (layers s ! k0)\<lparr>rotate := theta\<rparr>]"
  have "?ls' ! k = layers s ! k \<or>
        layer_id (layers s ! k) = i \<and> ?ls' ! k = (layers s ! k)\<lparr>rotate := theta\<rparr>" for k
    using k0 i by (cases "k = k0") simp_all
  with Some show ?thesis by (simp add: produce_def)
qed

lemma rotate_first_distinct:
  "distinct (map layer_id ls) \<Longrightarrow>
   (case find_layer i ls of None \<Rightarrow> ls | Some k \<Rightarrow> ls[k := (ls ! k)\<lparr>rotate := theta\<rparr>]) =
   map (\<lambda>layer. if layer_id layer = i then layer\<lparr>rotate := theta\<rparr> else layer) ls"
proof (induction ls)
  case Nil
  then show ?case by simp
next
  case (Cons layer ls)
  show ?case
  proof (cases "layer_id layer = i")
    case True
    with Cons.prems have "i \<notin> layer_id ` set ls" by simp
    then have "\<forall>l \<in> set ls. layer_id l \<noteq> i" by blast
    then have "map (\<lambda>layer. if layer_id layer = i then layer\<lparr>rotate := theta\<rparr> else layer) ls = ls"
      by (simp add: map_idI)
    with True show ?thesis by simp
  next
    case False
    with Cons show ?thesis by (simp split: option.splits)
  qed
qed

lemma layer_id_rotated:
  "map layer_id (ls[k := (ls ! k)\<lparr>rotate := theta\<rparr>]) = map layer_id ls"
  by (cases "k < length ls") (simp_all add: map_update list_update_same_conv list_update_beyond)

text \<open>
  No \<open>moved\<close> action writes \<open>positionX\<close> or \<open>positionY\<close>: the callback assigns to the
  properties \<^verbatim>\<open>x\<close> and \<^verbatim>\<open>y\<close>, and what it assigns is NaN.
\<close>

lemma moved_keeps_position:
  assumes "produce s (recipe (Moved dx dy)) = Inr s'"
  shows "map positionX (layers s') = map positionX (layers s)"
    and "map positionY (layers s') = map positionY (layers s)"
    and "map x_prop (layers s') =
           map (\<lambda>layer. if initialTransforms s (layer_id layer) = None then x_prop layer
                         else Number NaN) (layers s)"
  using assms by (auto simp: produce_Moved)

text \<open>
  Whatever the state and the action, a call of \<open>reducer\<close> that returns, returns
  \<^verbatim>\<open>undefined\<close>.
\<close>

lemma reducer_returns_undefined: "reducer currentState a = Inr r \<Longrightarrow> r = None"
  by (auto simp: reducer_def Let_def split: sum.splits)

section \<open>Preservation of the invariant\<close>

lemma recipe_preserves:
  assumes "snapshot_ids_present s" and "produce s (recipe a) = Inr s'"
  shows "snapshot_ids_present s'"
proof (cases a)
  case (MoveStarted i)
  with assms(2) have "s' = s\<lparr>initialTransforms :=
      moveStarted_forEach (initialTransforms s) (layers s)\<rparr>"
    by (auto simp: produce_def)
  with assms(1) show ?thesis
    by (simp add: snapshot_ids_present_def dom_moveStarted_forEach)
next
  case (Moved dx dy)
  let ?f = "\<lambda>layer. if initialTransforms s (layer_id layer) = None then layer
                      else layer\<lparr>x_prop := Number NaN, y_prop := Number NaN\<rparr>"
  from Moved assms(2) have s': "s' = s\<lparr>layers := map ?f (layers s)\<rparr>"
    by (simp add: produce_Moved)
  have "map layer_id (map ?f (layers s)) = map layer_id (layers s)"
    by simp
  then have "layer_id ` set (map ?f (layers s)) = layer_id ` set (layers s)"
    by (metis set_map)
  with s' assms(1) show ?thesis by (simp add: snapshot_ids_present_def)
next
  case MoveEnded
  with assms show ?thesis by (auto simp: snapshot_ids_present_def produce_def)
next
  case (Resized dx dy)
  with assms show ?thesis by (auto simp: produce_Resized split: if_splits)
next
  case (Rotated i theta)
  show ?thesis
  proof (cases "find_layer i (layers s)")
    case None
    with Rotated assms show ?thesis by (auto simp: produce_def)
  next
    case (Some k)
    with Rotated assms(2)
    have s': "s' = s\<lparr>layers := (layers s)[k := (layers s ! k)\<lparr>rotate := theta\<rparr>]\<rparr>"
      by (auto simp: produce_def)
    have "layer_id ` set ((layers s)[k := (layers s ! k)\<lparr>rotate := theta\<rparr>]) =
          layer_id ` set (layers s)"
      using layer_id_rotated [of "layers s" k theta] by (metis set_map)
    with s' assms(1) show ?thesis by (simp add: snapshot_ids_present_def)
  qed
next
  case (Unknown t)
  with assms show ?thesis by (auto simp: produce_def)
qed

lemma reachable_snapshot_ids_present: "reachable s \<Longrightarrow> snapshot_ids_present s"
proof (induction rule: reachable.induct)
  case initial
  show ?case by (simp add: snapshot_ids_present_def initialState_def)
next
  case (step s a s')
  then show ?case by (blast intro: recipe_preserves)
qed

section \<open>The angle\<close>

lemma atan2_range: "- pi < atan2 y x \<and> atan2 y x \<le> pi"
proof -
  have lo: "- (pi / 2) < arctan (y / x)" by (rule arctan_lbound)
  have hi: "arctan (y / x) < pi / 2" by (rule arctan_ubound)
  have p: "0 < pi" by simp
  consider "0 < x" | "x < 0" "0 \<le> y" | "x < 0" "y < 0" | "x = 0" "0 < y" | "x = 0" "y < 0"
    | "x = 0" "y = 0"
    by linarith
  then show ?thesis
  proof cases
    case 1
    then have "atan2 y x = arctan (y / x)" by (simp add: atan2_def)
    with lo hi p show ?thesis by linarith
  next
    case 2
    then have "y / x \<le> 0" by (simp add: divide_nonneg_neg)
    then have "arctan (y / x) \<le> 0" by (simp add: arctan_le_zero_iff)
    moreover from 2 have "atan2 y x = arctan (y / x) + pi" by (simp add: atan2_def)
    ultimately show ?thesis using lo p by linarith
  next
    case 3
    then have "0 < y / x" by (simp add: divide_neg_neg)
    then have "0 < arctan (y / x)" by (simp add: zero_less_arctan_iff)
    moreover from 3 have "atan2 y x = arctan (y / x) - pi" by (simp add: atan2_def)
    ultimately show ?thesis using hi p by linarith
  next
    case 4
    then have "atan2 y x = pi / 2" by (simp add: atan2_def)
    with p show ?thesis by linarith
  next
    case 5
    then have "atan2 y x = - (pi / 2)" by (simp add: atan2_def)
    with p show ?thesis by linarith
  next
    case 6
    then have "atan2 y x = 0" by (simp add: atan2_def)
    with p show ?thesis by linarith
  qed
qed

lemma polar_arctan:
  assumes "x \<noteq> 0"
  shows "sqrt (x\<^sup>2 + y\<^sup>2) * cos (arctan (y / x)) = \<bar>x\<bar>"
    and "sqrt (x\<^sup>2 + y\<^sup>2) * sin (arctan (y / x)) = \<bar>x\<bar> * (y / x)"
proof -
  have pos: "0 < x\<^sup>2 + y\<^sup>2" using assms by (simp add: sum_power2_gt_zero_iff)
  have "1 + (y / x)\<^sup>2 = (x\<^sup>2 + y\<^sup>2) / x\<^sup>2"
    using assms by (simp add: field_simps power2_eq_square)
  then have s: "sqrt (1 + (y / x)\<^sup>2) = sqrt (x\<^sup>2 + y\<^sup>2) / \<bar>x\<bar>"
    by (simp add: real_sqrt_divide)
  have sp: "0 < sqrt (x\<^sup>2 + y\<^sup>2)" using pos by simp
  show "sqrt (x\<^sup>2 + y\<^sup>2) * cos (arctan (y / x)) = \<bar>x\<bar>"
    using sp assms by (simp add: cos_arctan s)
  show "sqrt (x\<^sup>2 + y\<^sup>2) * sin (arctan (y / x)) = \<bar>x\<bar> * (y / x)"
    using sp assms by (simp add: sin_arctan s)
qed

text \<open>
  \<open>atan2 y x\<close> is the angle of the point \<open>(x, y)\<close>: the point lies at that angle on the
  circle through it.
\<close>

lemma atan2_polar:
  assumes "x \<noteq> 0 \<or> y \<noteq> 0"
  shows "x = sqrt (x\<^sup>2 + y\<^sup>2) * cos (atan2 y x) \<and> y = sqrt (x\<^sup>2 + y\<^sup>2) * sin (atan2 y x)"
proof (cases "x = 0")
  case True
  with assms show ?thesis by (auto simp: atan2_def)
next
  case False
  note c = polar_arctan [OF False, of y]
  show ?thesis
  proof (cases "0 < x")
    case True
    with c show ?thesis by (simp add: atan2_def)
  next
    case neg: False
    with False have "x < 0" by simp
    with c show ?thesis
      by (simp add: atan2_def cos_add sin_add cos_diff sin_diff)
  qed
qed

text \<open>
  What the lines of the handler compute for a finite pointer position and pivot, were
  they reached with one.
\<close>

lemma nextTheta_of_finite:
  "nextTheta_of (Finite cx, Finite cy) (Number (Finite x)) (Number (Finite y)) =
     Finite (atan2 (y - cy) (x - cx))"
  by (simp add: nextTheta_of_def js_minus_def)

lemma nextTheta_of_example:
  "nextTheta_of (Finite 100, Finite 50) (Number (Finite 100)) (Number (Finite 150)) =
     Finite (pi / 2)"
  by (simp add: nextTheta_of_def js_minus_def atan2_def)

text \<open>In a call with two arguments the angle is NaN, whatever the pivot.\<close>

lemma nextTheta_of_two_arguments: "nextTheta_of parentCenter Undefined Undefined = NaN"
  by (simp add: nextTheta_of_def js_minus_def split: prod.split)

text \<open>
  \<^verbatim>\<open>LayerActions\<close> has no \<^verbatim>\<open>rotate\<close>, so in no scope does the handler hand an
  action to \<^verbatim>\<open>dispatch\<close>.
\<close>

lemma LayerActions_rotate_undefined: "LayerActions ''rotate'' = None"
  by (simp add: LayerActions_def)

lemma RotateHandler_onMove_in_throws:
  "\<exists>e. RotateHandler_onMove_in scope dx dy x y = Inl e"
  by (simp add: RotateHandler_onMove_in_def LayerActions_rotate_undefined Let_def
      split: option.split)

section \<open>The touch adapter\<close>

text \<open>
  A touch start with both targets and one changed touch records the touch and calls
  \<^verbatim>\<open>onDragStart\<close> with its coordinates.
\<close>

lemma onTouchStart_single:
  "currentTarget e = Some c \<Longrightarrow> target e = Some t \<Longrightarrow> changedTouches e = [touch] \<Longrightarrow>
   onTouchStart handlers e (initialTouch, w) =
     (case onDragStart handlers (clientX touch) (clientY touch) e w of
        Inl err \<Rightarrow> Inl err
      | Inr w' \<Rightarrow> Inr (Some (clientX touch, clientY touch), w'))"
  by (simp add: onTouchStart_def Let_def)

section \<open>Claims\<close>

text \<open>
  Claim C1. After \<open>moveStarted\<close>, a \<open>moved(dx, dy)\<close> action is to set the position of every
  layer with a snapshot to the snapshot's position plus \<open>(dx, dy)\<close>. The callback reads
  \<^verbatim>\<open>x\<close> and \<^verbatim>\<open>y\<close> of the snapshot, which has \<^verbatim>\<open>positionX\<close> and
  \<^verbatim>\<open>positionY\<close>, and assigns to \<^verbatim>\<open>layer.x\<close> and \<^verbatim>\<open>layer.y\<close>. On the seeded
  layer, \<open>moveStarted\<close> and \<open>moved(15, -5)\<close> leave the position at \<open>(0, 0)\<close>, where the
  claim has \<open>(15, -5)\<close>, and give the layer the properties \<^verbatim>\<open>x\<close> and \<^verbatim>\<open>y\<close>, both
  NaN.
\<close>

theorem C1_moved_on_seed:
  "map_sum id layers
     (dispatch_all initialState [MoveStarted (Finite 1), Moved (Finite 15) (Finite (- 5))]) =
   Inr [\<lparr>width = Finite 200, height = Finite 100, positionX = Finite 0, positionY = Finite 0,
         rotate = Finite 0, layer_id = 1, x_prop = Number NaN, y_prop = Number NaN\<rparr>]"
  by (simp add: initialState_def produce_def moveStarted_forEach_def pick_def
      moved_callback_def Transform_x_def Transform_y_def js_plus_def)

text \<open>
  Claim C2. After \<open>moveStarted\<close>, \<open>resized(50, 20)\<close> on the seeded layer is to give width
  250 and height 120. The callback binds \<^verbatim>\<open>width\<close> and \<^verbatim>\<open>height\<close> and then
  evaluates \<^verbatim>\<open>x + dx\<close>, where \<^verbatim>\<open>x\<close> is not bound: the action throws a
  ReferenceError and there is no resized layer.
\<close>

theorem C2_resized_on_seed:
  "dispatch_all initialState [MoveStarted (Finite 1), Resized (Finite 50) (Finite 20)] =
   Inl (ReferenceError ''x'')"
  by (simp add: initialState_def produce_def moveStarted_forEach_def pick_def
      resized_callback_def unbound_identifier_def)

text \<open>
  Claim C3. \<open>reducer\<close> is to return the new state, and the state it was given when the
  action is not recognised. Its body calls \<^verbatim>\<open>produce\<close> and returns nothing: on the
  initial state and \<open>moveStarted\<close> the result is \<^verbatim>\<open>undefined\<close>, and so it is on
  an action of unknown type, while \<^verbatim>\<open>produce\<close> inside computed the state with the
  snapshot, or the unchanged state.
\<close>

theorem C3_reducer_returns_undefined:
  "reducer (Some initialState) (MoveStarted (Finite 1)) = Inr None \<and>
   reducer (Some initialState) (Unknown ''layer/unknown'') = Inr None \<and>
   produce initialState (recipe (Unknown ''layer/unknown'')) = Inr initialState \<and>
   map_sum id (\<lambda>s. dom (initialTransforms s))
     (produce initialState (recipe (MoveStarted (Finite 1)))) = Inr {1}"
  by (simp add: reducer_def initialState_def produce_def moveStarted_forEach_def)

text \<open>
  Claim C4. \<open>moveEnded\<close> empties the snapshot map and changes no layer
  (\<open>produce_MoveEnded\<close>). In the scenario of the claim, \<open>moveStarted\<close>, \<open>moved(15, -5)\<close>,
  \<open>moveEnded\<close> on the seeded layer, the snapshot map ends empty, and the position is
  \<open>(0, 0)\<close> where the claim has \<open>(15, -5)\<close>: \<open>moved\<close> did not write it.
\<close>

theorem C4_moveEnded_scenario:
  "dispatch_all initialState
     [MoveStarted (Finite 1), Moved (Finite 15) (Finite (- 5)), MoveEnded] =
   Inr \<lparr>layers =
          [\<lparr>width = Finite 200, height = Finite 100, positionX = Finite 0,
            positionY = Finite 0, rotate = Finite 0, layer_id = 1,
            x_prop = Number NaN, y_prop = Number NaN\<rparr>],
        initialTransforms = Map.empty\<rparr>"
  by (simp add: initialState_def produce_def moveStarted_forEach_def pick_def
      moved_callback_def Transform_x_def Transform_y_def js_plus_def)

text \<open>
  Claim C5. \<open>rotated(id, theta)\<close>: when no layer has that id the state is unchanged; when
  the ids of the layers are distinct, as the data model has them, the layer with that
  id gets \<open>rotate = theta\<close>, its other fields stay, and so do the other layers and the
  snapshot map. In every state the action returns, and a layer is either unchanged or
  has the id of the action and differs in \<open>rotate\<close>, now \<open>theta\<close>, alone.
\<close>

theorem C5_rotated:
  "((\<forall>layer \<in> set (layers s). layer_id layer \<noteq> i) \<longrightarrow>
      produce s (recipe (Rotated i theta)) = Inr s) \<and>
   (distinct (map layer_id (layers s)) \<longrightarrow>
      produce s (recipe (Rotated i theta)) =
        Inr (s\<lparr>layers :=
                 map (\<lambda>layer. if layer_id layer = i then layer\<lparr>rotate := theta\<rparr> else layer)
                   (layers s)\<rparr>)) \<and>
   (\<exists>s'. produce s (recipe (Rotated i theta)) = Inr s' \<and>
      initialTransforms s' = initialTransforms s \<and>
      length (layers s') = length (layers s) \<and>
      (\<forall>k < length (layers s).
         layers s' ! k = layers s ! k \<or>
         layer_id (layers s ! k) = i \<and> layers s' ! k = (layers s ! k)\<lparr>rotate := theta\<rparr>))"
proof (intro conjI impI)
  show "\<exists>s'. produce s (recipe (Rotated i theta)) = Inr s' \<and>
      initialTransforms s' = initialTransforms s \<and>
      length (layers s') = length (layers s) \<and>
      (\<forall>k < length (layers s).
         layers s' ! k = layers s ! k \<or>
         layer_id (layers s ! k) = i \<and> layers s' ! k = (layers s ! k)\<lparr>rotate := theta\<rparr>)"
    by (rule rotated_frame)
next
  assume "\<forall>layer \<in> set (layers s). layer_id layer \<noteq> i"
  then have "find_layer i (layers s) = None" by (simp add: find_layer_None)
  then show "produce s (recipe (Rotated i theta)) = Inr s" by (simp add: produce_def)
next
  assume d: "distinct (map layer_id (layers s))"
  show "produce s (recipe (Rotated i theta)) =
        Inr (s\<lparr>layers :=
                 map (\<lambda>layer. if layer_id layer = i then layer\<lparr>rotate := theta\<rparr> else layer)
                   (layers s)\<rparr>)"
    using rotate_first_distinct [OF d, where i = i and theta = theta]
    by (cases "find_layer i (layers s)") (simp_all add: produce_def)
qed

theorem C5_rotated_witness:
  "list_all (\<lambda>layer. layer_id layer \<noteq> 7) (layers initialState) \<and>
   distinct (map layer_id (layers initialState)) \<and>
   produce initialState (recipe (Rotated 7 (Finite 2))) = Inr initialState \<and>
   produce initialState (recipe (Rotated 1 (Finite 2))) =
     Inr \<lparr>layers =
            [\<lparr>width = Finite 200, height = Finite 100, positionX = Finite 0,
              positionY = Finite 0, rotate = Finite 2, layer_id = 1,
              x_prop = Undefined, y_prop = Undefined\<rparr>],
          initialTransforms = Map.empty\<rparr>"
  using C5_rotated [of initialState 7 "Finite 2"] C5_rotated [of initialState 1 "Finite 2"]
  by (simp add: initialState_def)

text \<open>
  Claim C6. The angle passed to the \<open>rotated\<close> action is to be \<open>atan2 (y - cy) (x - cx)\<close>,
  which is \<open>pi / 2\<close> for the pivot \<open>(100, 50)\<close> and the pointer at \<open>(100, 150)\<close>. The
  handler of the listing passes no angle: called with that pointer it throws a
  ReferenceError at \<^verbatim>\<open>props\<close>, and in a scope that binds \<^verbatim>\<open>props\<close> with that
  pivot, \<^verbatim>\<open>layer\<close> and \<^verbatim>\<open>dispatch\<close> it throws a TypeError at
  \<^verbatim>\<open>LayerActions.rotate\<close>, which \<^verbatim>\<open>LayerActions\<close> does not have. Nothing is
  handed to \<^verbatim>\<open>dispatch\<close> in either.
\<close>

theorem C6_rotate_handler_throws:
  "RotateHandler_onMove (Finite 0) (Finite 100) (Number (Finite 100)) (Number (Finite 150)) =
     Inl (ReferenceError ''props'') \<and>
   RotateHandler_onMove_in
     \<lparr>scope_props_parentCenter = Some (Finite 100, Finite 50), scope_layer_id = Some 1,
      scope_dispatch = True\<rparr>
     (Finite 0) (Finite 100) (Number (Finite 100)) (Number (Finite 150)) =
     Inl (TypeError ''LayerActions.rotate'')"
  by (simp add: RotateHandler_onMove_def RotateHandler_onMove_in_def RotateHandler_scope_def
      LayerActions_def)

text \<open>
  Claim C7. For a layer that has no snapshot, the callbacks of \<open>moved\<close> and \<open>resized\<close>
  return at once and leave the layer as it is, with no exception. A \<open>moved\<close> action
  returns, with every layer that has no snapshot unchanged. When no layer has a
  snapshot, \<open>resized\<close> and \<open>moved\<close> return the state unchanged.
\<close>

theorem C7_no_snapshot_no_op:
  "(initialTransforms s (layer_id layer) = None \<longrightarrow>
      moved_callback (initialTransforms s) dx dy layer = Inr layer \<and>
      resized_callback (initialTransforms s) dx dy layer = Inr layer) \<and>
   (\<exists>s'. produce s (recipe (Moved dx dy)) = Inr s' \<and>
      length (layers s') = length (layers s) \<and>
      initialTransforms s' = initialTransforms s \<and>
      (\<forall>k < length (layers s).
         initialTransforms s (layer_id (layers s ! k)) = None \<longrightarrow>
         layers s' ! k = layers s ! k)) \<and>
   ((\<forall>layer \<in> set (layers s). initialTransforms s (layer_id layer) = None) \<longrightarrow>
      produce s (recipe (Resized dx dy)) = Inr s \<and>
      produce s (recipe (Moved dx dy)) = Inr s)"
proof (intro conjI impI)
  assume n: "initialTransforms s (layer_id layer) = None"
  then show "moved_callback (initialTransforms s) dx dy layer = Inr layer"
    by (simp add: moved_callback_result)
  from n show "resized_callback (initialTransforms s) dx dy layer = Inr layer"
    by (simp add: resized_callback_result)
next
  show "\<exists>s'. produce s (recipe (Moved dx dy)) = Inr s' \<and>
      length (layers s') = length (layers s) \<and>
      initialTransforms s' = initialTransforms s \<and>
      (\<forall>k < length (layers s).
         initialTransforms s (layer_id (layers s ! k)) = None \<longrightarrow>
         layers s' ! k = layers s ! k)"
    by (simp add: produce_Moved)
next
  assume a: "\<forall>layer \<in> set (layers s). initialTransforms s (layer_id layer) = None"
  then show "produce s (recipe (Resized dx dy)) = Inr s"
    by (simp add: produce_Resized)
  from a have "map (\<lambda>layer. if initialTransforms s (layer_id layer) = None then layer
                             else layer\<lparr>x_prop := Number NaN, y_prop := Number NaN\<rparr>)
                 (layers s) = layers s"
    by (simp add: map_idI)
  then show "produce s (recipe (Moved dx dy)) = Inr s"
    by (simp add: produce_Moved)
qed

theorem C7_no_snapshot_no_op_witness:
  "initialTransforms initialState (layer_id (hd (layers initialState))) = None \<and>
   list_all (\<lambda>layer. initialTransforms initialState (layer_id layer) = None)
     (layers initialState) \<and>
   resized_callback (initialTransforms initialState) (Finite 50) (Finite 20)
     (hd (layers initialState)) = Inr (hd (layers initialState)) \<and>
   produce initialState (recipe (Resized (Finite 50) (Finite 20))) = Inr initialState \<and>
   produce initialState (recipe (Moved (Finite 50) (Finite 20))) = Inr initialState"
  using C7_no_snapshot_no_op
    [of initialState "hd (layers initialState)" "Finite 50" "Finite 20"]
  by (simp add: initialState_def)

text \<open>
  Claim C8. Every state reached from the initial state has the invariant that each id
  with a snapshot is the id of a layer, and every action that returns a state keeps
  the invariant.
\<close>

theorem C8_snapshot_invariant:
  "(reachable s \<longrightarrow> snapshot_ids_present s) \<and>
   (snapshot_ids_present s \<and> produce s (recipe a) = Inr s' \<longrightarrow> snapshot_ids_present s')"
  using reachable_snapshot_ids_present recipe_preserves by blast

theorem C8_snapshot_invariant_witness:
  "reachable (initialState\<lparr>initialTransforms := [1 \<mapsto> pick (hd (layers initialState))]\<rparr>) \<and>
   snapshot_ids_present initialState \<and>
   produce initialState (recipe (MoveStarted (Finite 1))) =
     Inr (initialState\<lparr>initialTransforms := [1 \<mapsto> pick (hd (layers initialState))]\<rparr>) \<and>
   snapshot_ids_present
     (initialState\<lparr>initialTransforms := [1 \<mapsto> pick (hd (layers initialState))]\<rparr>)"
proof -
  let ?s1 = "initialState\<lparr>initialTransforms := [1 \<mapsto> pick (hd (layers initialState))]\<rparr>"
  have p: "produce initialState (recipe (MoveStarted (Finite 1))) = Inr ?s1"
    by (simp add: initialState_def produce_def moveStarted_forEach_def)
  have r: "reachable ?s1"
    using reachable.step [OF reachable.initial p] .
  have i: "snapshot_ids_present initialState"
    by (simp add: snapshot_ids_present_def initialState_def)
  show ?thesis
    using C8_snapshot_invariant [of ?s1 "MoveStarted (Finite 1)" ?s1]
      C8_snapshot_invariant [of initialState "MoveStarted (Finite 1)" ?s1] p r i
    by blast
qed

text \<open>
  Claim C9. A touch start whose event lacks the current target or the target, or whose
  list of changed touches has a length other than one, is ignored: whatever the
  handlers are, none is called and their state is as before, and the recorded initial
  touch is as before. With the handlers of \<^verbatim>\<open>Canvas\<close>, nothing is dispatched and the
  snapshot map stays as it was.
\<close>

theorem C9_touch_start_guard:
  assumes "currentTarget e = None \<or> target e = None \<or> length (changedTouches e) \<noteq> 1"
  shows "onTouchStart handlers e (initialTouch, w) = Inr (initialTouch, w)"
  using assms by (auto simp: onTouchStart_def)

theorem C9_touch_start_guard_witness:
  "length (changedTouches
     \<lparr>currentTarget = Some \<lparr>dataset_layerId = Number (Finite 1)\<rparr>,
      target = Some \<lparr>dataset_layerId = Number (Finite 1)\<rparr>,
      changedTouches = [\<lparr>clientX = Finite 10, clientY = Finite 20\<rparr>,
                        \<lparr>clientX = Finite 30, clientY = Finite 40\<rparr>]\<rparr>) \<noteq> 1 \<and>
   onTouchStart Canvas_handlers
     \<lparr>currentTarget = Some \<lparr>dataset_layerId = Number (Finite 1)\<rparr>,
      target = Some \<lparr>dataset_layerId = Number (Finite 1)\<rparr>,
      changedTouches = [\<lparr>clientX = Finite 10, clientY = Finite 20\<rparr>,
                        \<lparr>clientX = Finite 30, clientY = Finite 40\<rparr>]\<rparr>
     (None, Some initialState) = Inr (None, Some initialState) \<and>
   initialTransforms initialState = Map.empty"
  using C9_touch_start_guard
    [of "\<lparr>currentTarget = Some \<lparr>dataset_layerId = Number (Finite 1)\<rparr>,
          target = Some \<lparr>dataset_layerId = Number (Finite 1)\<rparr>,
          changedTouches = [\<lparr>clientX = Finite 10, clientY = Finite 20\<rparr>,
                            \<lparr>clientX = Finite 30, clientY = Finite 40\<rparr>]\<rparr>"
        Canvas_handlers None "Some initialState"]
  by (simp add: initialState_def)

end
